theory Spec2Isabelle
  imports Complex_Main
begin

section \<open>JavaScript numbers and strings\<close>

text \<open>
  Budgets, lengths and indices are JavaScript numbers that hold integers: they are
  modelled as \<open>int\<close> (magnitudes below \<open>2^53\<close>, where a double holds every integer
  exactly; a budget with a fraction is outside the model).
  The literals \<open>0.7\<close>, \<open>0.5\<close>, \<open>0.35\<close> and \<open>0.15\<close> are binary64 values, and a
  product \<open>n * 0.7\<close> is the exact product rounded to 53 significant bits, ties to
  even. That rounding is written out here, because it decides comparisons and floors
  at the boundary (\<open>180 * 0.7\<close> is \<open>125.99999999999999\<close>, not \<open>126\<close>).
\<close>

function bitlen :: "int \<Rightarrow> nat" where
  \<comment> \<open>the number of binary digits of a positive integer\<close>
  "bitlen n = (if n \<le> 0 then 0 else Suc (bitlen (n div 2)))"
  by pat_completeness auto
termination
  by (relation "measure nat") auto

declare bitlen.simps [simp del]

definition round53 :: "int \<Rightarrow> int" where
  \<comment> \<open>a non-negative integer rounded to 53 significant bits, round-half-to-even\<close>
  "round53 p =
     (if bitlen p \<le> 53 then p
      else let k = bitlen p - 53; q = p div 2 ^ k; r = p mod 2 ^ k
           in (if 2 ^ k < 2 * r \<or> (2 * r = 2 ^ k \<and> odd q) then q + 1 else q) * 2 ^ k)"

text \<open>A positive binary64 constant is a pair \<open>(m, e)\<close> standing for \<open>m / 2^e\<close>.\<close>

type_synonym binary64 = "int \<times> nat"

definition c070 :: binary64 where
  \<comment> \<open>\<open>0.7 = 0x1.6666666666666p-1\<close>\<close>
  "c070 = (6305039478318694, 53)"

definition c050 :: binary64 where
  \<comment> \<open>\<open>0.5 = 0x1.0000000000000p-1\<close>\<close>
  "c050 = (4503599627370496, 53)"

definition c035 :: binary64 where
  \<comment> \<open>\<open>0.35 = 0x1.6666666666666p-2\<close>\<close>
  "c035 = (6305039478318694, 54)"

definition c015 :: binary64 where
  \<comment> \<open>\<open>0.15 = 0x1.3333333333333p-3\<close>\<close>
  "c015 = (5404319552844595, 55)"

definition js_times :: "int \<Rightarrow> binary64 \<Rightarrow> rat" where
  \<comment> \<open>\<open>n * c\<close> in binary64 arithmetic, for an integer \<open>n\<close>; rounding is symmetric in the sign\<close>
  "js_times n c =
     (if n < 0 then - (of_int (round53 (- n * fst c)) / 2 ^ snd c)
      else of_int (round53 (n * fst c)) / 2 ^ snd c)"

text \<open>
  Strings are lists of code units; the model has the code units below 256, which is
  what \<open>char\<close> holds. \<open>substring(0, n)\<close> clamps a negative \<open>n\<close> to 0 and an
  \<open>n\<close> beyond the end to the length; \<open>lastIndexOf\<close> searches from the end and
  answers \<open>-1\<close> when the character does not occur.
\<close>

definition substring0 :: "string \<Rightarrow> int \<Rightarrow> string" where
  "substring0 s n = take (nat n) s"

definition lastIndexOf :: "string \<Rightarrow> char \<Rightarrow> int" where
  "lastIndexOf s c =
     (if c \<in> set s then int (length s) - 1 - int (length (takeWhile (\<lambda>x. x \<noteq> c) (rev s)))
      else - 1)"

fun startsWith :: "string \<Rightarrow> string \<Rightarrow> bool" where
  "startsWith s [] = True"
| "startsWith [] (k # ks) = False"
| "startsWith (c # cs) (k # ks) = (c = k \<and> startsWith cs ks)"

fun includes_str :: "string \<Rightarrow> string \<Rightarrow> bool" where
  "includes_str [] k = (k = [])"
| "includes_str (c # cs) k = (startsWith (c # cs) k \<or> includes_str cs k)"

definition lowerChar :: "char \<Rightarrow> char" where
  \<comment> \<open>\<open>A-Z\<close>, and in Latin-1 \<open>0xC0-0xD6\<close> and \<open>0xD8-0xDE\<close>, move up by 32\<close>
  "lowerChar c =
     (let n = (of_char c :: nat)
      in if (65 \<le> n \<and> n \<le> 90) \<or> (192 \<le> n \<and> n \<le> 214) \<or> (216 \<le> n \<and> n \<le> 222)
         then char_of (n + 32) else c)"

definition toLowerCase :: "string \<Rightarrow> string" where
  "toLowerCase s = map lowerChar s"

section \<open>context-manager.ts: the ContextManager class\<close>

text \<open>
  The interfaces of the file. The percentages of a \<open>ContextConfig\<close> are arbitrary
  JavaScript numbers; they are taken as exact rationals, so the sums, the scaling by
  \<open>100 / total\<close> and the products under \<open>Math.floor\<close> in the constructor are exact
  here, where the code rounds each to binary64.
  \<open>Partial<ContextConfig>\<close> is the record of optional fields the constructor
  receives. The field \<open>percentRetained\<close> of \<open>TruncationResult\<close>, a rounded
  floating-point ratio that is only reported, is left out.
\<close>

record ContextConfig =
  totalBudget :: int
  instructionsPercent :: rat
  docsPercent :: rat
  agentPercent :: rat
  responsePercent :: rat

record PartialContextConfig =
  optTotalBudget :: "int option"
  optInstructionsPercent :: "rat option"
  optDocsPercent :: "rat option"
  optAgentPercent :: "rat option"
  optResponsePercent :: "rat option"

record ContextAllocation =
  instructions :: int
  docs :: int
  agent :: int
  reserved :: int
  total_alloc :: int

datatype ContentType = Instructions | Docs | Agent

record ContentPriority =
  ctype :: ContentType
  priority :: int

record TruncationResult =
  content :: string
  original_length :: int
  original_tokens :: int
  truncated_length :: int
  truncated_tokens :: int
  wasTruncated :: bool

record ContextManager =
  config :: ContextConfig
  allocation :: ContextAllocation


section \<open>mcp server: the records of \<open>getContextualInstructions\<close>\<close>

record InstructionEntry =
  file_name :: string
  entry_content :: string
  truncated :: bool
  originalLength :: int
  usedLength :: int
  estimatedTokens :: int

record ContextualResult =
  r_task :: string
  r_fileType :: string
  r_instructions :: "InstructionEntry list"
  totalChars :: int
  budgetRemaining :: int
  alloc_budget :: int
  alloc_estimatedTokens :: int

record Summary =
  filesLoaded :: int
  totalCharsUsed :: int
  totalTokensUsed :: int
  remainingBudget :: int
  remainingTokens :: int

record ContextualInstructions = ContextualResult +
  summary :: Summary

section \<open>context-manager.ts: the methods\<close>

definition CHARS_PER_TOKEN :: int where
  "CHARS_PER_TOKEN = 4"

definition withDefaults :: "PartialContextConfig \<Rightarrow> ContextConfig" where
  \<comment> \<open>\<open>config.x ?? default\<close>, field by field\<close>
  "withDefaults c =
     \<lparr> totalBudget = (case optTotalBudget c of None \<Rightarrow> 6000 | Some v \<Rightarrow> v),
       instructionsPercent = (case optInstructionsPercent c of None \<Rightarrow> 40 | Some v \<Rightarrow> v),
       docsPercent = (case optDocsPercent c of None \<Rightarrow> 30 | Some v \<Rightarrow> v),
       agentPercent = (case optAgentPercent c of None \<Rightarrow> 20 | Some v \<Rightarrow> v),
       responsePercent = (case optResponsePercent c of None \<Rightarrow> 10 | Some v \<Rightarrow> v) \<rparr>"


definition percentTotal :: "ContextConfig \<Rightarrow> rat" where
  "percentTotal cfg =
     instructionsPercent cfg + docsPercent cfg + agentPercent cfg + responsePercent cfg"

definition constructor_warns :: "PartialContextConfig \<Rightarrow> bool" where
  \<comment> \<open>whether the constructor prints its \<open>console.warn\<close> diagnostic\<close>
  "constructor_warns c = (1 < \<bar>percentTotal (withDefaults c) - 100\<bar>)"


definition getAllocation :: "ContextManager \<Rightarrow> ContextAllocation" where
  "getAllocation m = allocation m"

definition getBudgetFor :: "ContextManager \<Rightarrow> ContentType \<Rightarrow> int" where
  "getBudgetFor m t =
     (case t of Instructions \<Rightarrow> instructions (allocation m)
      | Docs \<Rightarrow> docs (allocation m)
      | Agent \<Rightarrow> agent (allocation m))"

definition getRemaining :: "ContextManager \<Rightarrow> int \<Rightarrow> ContentType \<Rightarrow> int" where
  "getRemaining m used t = (let budget = getBudgetFor m t in max 0 (budget - used))"

definition estimateTokens :: "string \<Rightarrow> int" where
  \<comment> \<open>\<open>Math.ceil(content.length / CHARS_PER_TOKEN)\<close>; the division by 4 is exact in binary64\<close>
  "estimateTokens s = \<lceil>(of_nat (length s) :: rat) / of_int CHARS_PER_TOKEN\<rceil>"

definition getCharLimit :: "int \<Rightarrow> int" where
  "getCharLimit tokens = tokens * CHARS_PER_TOKEN"

definition fits :: "string \<Rightarrow> int \<Rightarrow> bool" where
  "fits s budget = (estimateTokens s \<le> budget)"

definition truncation_marker :: string where
  "truncation_marker =
     [CHR 0x0A, CHR 0x0A] @ ''[... content truncated to fit context budget ...]''"

definition truncate :: "string \<Rightarrow> int \<Rightarrow> TruncationResult" where
  "truncate s budget =
     (let originalTokens = estimateTokens s;
          maxChars = getCharLimit budget
      in if int (length s) \<le> maxChars then
           \<lparr> content = s,
             original_length = int (length s), original_tokens = originalTokens,
             truncated_length = int (length s), truncated_tokens = originalTokens,
             wasTruncated = False \<rparr>
         else
           let cut = substring0 s maxChars;
               lastPeriod = lastIndexOf cut CHR ''.'';
               lastNewline = lastIndexOf cut CHR 0x0A;
               lastHeading = lastIndexOf cut CHR ''#'';
               lastGoodPoint = max (max lastPeriod lastNewline) lastHeading;
               kept = (if js_times maxChars c070 < of_int lastGoodPoint
                       then substring0 s (lastGoodPoint + 1) else cut)
           in \<lparr> content = kept @ truncation_marker,
                original_length = int (length s), original_tokens = originalTokens,
                truncated_length = int (length kept), truncated_tokens = estimateTokens kept,
                wasTruncated = True \<rparr>)"

text \<open>
  \<open>suggestPriority\<close>: the three priorities start at the default and each keyword rule
  that matches overwrites all three, in the order of the source; the three entries are
  then sorted by priority (\<open>sort_key\<close> is a stable insertion sort).
\<close>

definition suggestPriority :: "string \<Rightarrow> ContentPriority list" where
  "suggestPriority task =
     (let taskLower = toLowerCase task;
          p0 = (1, 2, 3);
          p1 = (if includes_str taskLower ''api'' \<or> includes_str taskLower ''rest''
                   \<or> includes_str taskLower ''endpoint''
                then (2, 3, 1) else p0);
          p2 = (if includes_str taskLower ''security'' \<or> includes_str taskLower ''auth''
                   \<or> includes_str taskLower ''owasp''
                then (1, 2, 3) else p1);
          p3 = (if includes_str taskLower ''performance'' \<or> includes_str taskLower ''optimize''
                then (2, 1, 3) else p2);
          p4 = (if includes_str taskLower ''test'' \<or> includes_str taskLower ''spec''
                then (1, 2, 3) else p3);
          p5 = (if includes_str taskLower ''architecture'' \<or> includes_str taskLower ''design''
                then (3, 2, 1) else p4)
      in case p5 of (instructionsPriority, docsPriority, agentPriority) \<Rightarrow>
           sort_key priority
             [\<lparr> ctype = Instructions, priority = instructionsPriority \<rparr>,
              \<lparr> ctype = Docs, priority = docsPriority \<rparr>,
              \<lparr> ctype = Agent, priority = agentPriority \<rparr>])"

definition setBudget :: "ContentType \<Rightarrow> int \<Rightarrow> ContextAllocation \<Rightarrow> ContextAllocation" where
  \<comment> \<open>\<open>allocation[priority.type] = amount\<close>\<close>
  "setBudget t amount a =
     (case t of Instructions \<Rightarrow> a \<lparr> instructions := amount \<rparr>
      | Docs \<Rightarrow> a \<lparr> docs := amount \<rparr>
      | Agent \<Rightarrow> a \<lparr> agent := amount \<rparr>)"

definition weights :: "binary64 list" where
  "weights = [c050, c035, c015]"

definition allocateByPriority :: "ContextManager \<Rightarrow> string \<Rightarrow> ContextAllocation" where
  \<comment> \<open>\<open>forEach\<close> over the three priorities with their index into \<open>weights\<close>\<close>
  "allocateByPriority m task =
     (let priorities = suggestPriority task;
          totalAvailable = total_alloc (allocation m) - reserved (allocation m);
          start = \<lparr> instructions = 0, docs = 0, agent = 0,
                    reserved = reserved (allocation m),
                    total_alloc = total_alloc (allocation m) \<rparr>
      in fold (\<lambda>(p, w) a. setBudget (ctype p) \<lfloor>js_times totalAvailable w\<rfloor> a)
           (zip priorities weights) start)"

section \<open>mcp server: \<open>getContextualInstructions\<close>\<close>

text \<open>
  The instructions directory is a map from file name to content (\<open>None\<close>: the file
  does not exist), and \<open>instructionCache\<close> is a map of the same kind that
  \<open>loadInstruction\<close> reads first and fills on a miss.
\<close>

type_synonym directory = "string \<rightharpoonup> string"

definition CONTEXT_BUDGET :: int where
  "CONTEXT_BUDGET = 6000"

definition MAX_CHARS :: int where
  "MAX_CHARS = CONTEXT_BUDGET * CHARS_PER_TOKEN"

definition loadInstruction ::
  "directory \<Rightarrow> directory \<Rightarrow> string \<Rightarrow> string option \<times> directory" where
  "loadInstruction dir cache filename =
     (case cache filename of
        Some cached \<Rightarrow> (Some cached, cache)
      | None \<Rightarrow>
          (case dir filename of
             None \<Rightarrow> (None, cache)
           | Some text \<Rightarrow> (Some text, cache(filename \<mapsto> text))))"

definition uniq :: "string list \<Rightarrow> string list" where
  \<comment> \<open>\<open>[...new Set(relevant)]\<close>: the first occurrence of each name, in order\<close>
  "uniq xs = rev (remdups (rev xs))"

definition determineRelevantInstructions :: "string \<Rightarrow> string \<Rightarrow> string list" where
  "determineRelevantInstructions task fileType =
     (let taskLower = toLowerCase task
      in uniq
        ([''code-review-generic.instructions.md'']
         @ (if fileType = ''java'' then [''java.instructions.md''] else [])
         @ (if fileType = ''groovy'' then [''groovy.instructions.md''] else [])
         @ (if fileType = ''typescript'' \<or> fileType = ''javascript''
            then [''typescript-5-es2022.instructions.md''] else [])
         @ (if fileType = ''vue'' \<or> fileType = ''scss''
            then [''vuejs3.instructions.md''] else [])
         @ (if includes_str taskLower ''security'' \<or> includes_str taskLower ''auth''
               \<or> includes_str taskLower ''owasp''
            then [''security-and-owasp.instructions.md''] else [])
         @ (if includes_str taskLower ''performance'' \<or> includes_str taskLower ''optimize''
            then [''performance-optimization.instructions.md''] else [])
         @ (if includes_str taskLower ''ui'' \<or> includes_str taskLower ''component''
               \<or> includes_str taskLower ''quasar''
            then [''quasar.instructions.md''] else [])
         @ (if includes_str taskLower ''localize'' \<or> includes_str taskLower ''i18n''
               \<or> includes_str taskLower ''translation''
            then [''localization.instructions.md''] else [])))"

definition ceilTokens :: "int \<Rightarrow> int" where
  \<comment> \<open>\<open>Math.ceil(n / CHARS_PER_TOKEN)\<close>\<close>
  "ceilTokens n = \<lceil>(of_int n :: rat) / of_int CHARS_PER_TOKEN\<rceil>"

definition select_marker :: string where
  "select_marker = [CHR 0x0A] @ ''[... truncated ...]''"

definition addInstruction :: "string \<Rightarrow> string \<Rightarrow> ContextualResult \<Rightarrow> ContextualResult" where
  \<comment> \<open>the loop body from \<open>charsToUse\<close> on, for a file whose content is not empty\<close>
  "addInstruction filename text result =
     (let charsToUse = min (int (length text)) (budgetRemaining result);
          cut = (charsToUse < int (length text))
      in result
         \<lparr> r_instructions := r_instructions result @
             [\<lparr> file_name = filename,
                entry_content = (if cut then substring0 text charsToUse @ select_marker else text),
                truncated = cut,
                originalLength = int (length text),
                usedLength = charsToUse,
                estimatedTokens = ceilTokens charsToUse \<rparr>],
           totalChars := totalChars result + charsToUse,
           budgetRemaining := budgetRemaining result - charsToUse \<rparr>)"

definition processFile ::
  "directory \<Rightarrow> string \<Rightarrow> ContextualResult \<times> directory \<Rightarrow> ContextualResult \<times> directory" where
  \<comment> \<open>one iteration after the \<open>break\<close> test; \<open>!content\<close> holds for \<open>null\<close> and for \<open>""\<close>\<close>
  "processFile dir filename st =
     (case st of (result, cache) \<Rightarrow>
        (case loadInstruction dir cache filename of
           (None, cache') \<Rightarrow> (result, cache')
         | (Some text, cache') \<Rightarrow>
             if text = [] then (result, cache')
             else (addInstruction filename text result, cache')))"

fun instructionsLoop ::
  "directory \<Rightarrow> string list \<Rightarrow> ContextualResult \<times> directory \<Rightarrow> ContextualResult \<times> directory" where
  "instructionsLoop dir [] st = st"
| "instructionsLoop dir (filename # rest) st =
     (if budgetRemaining (fst st) \<le> 0 then st
      else instructionsLoop dir rest (processFile dir filename st))"

definition initialResult :: "string \<Rightarrow> string \<Rightarrow> int \<Rightarrow> ContextualResult" where
  "initialResult task fileType contextBudget =
     \<lparr> r_task = task, r_fileType = fileType, r_instructions = [],
       totalChars = 0, budgetRemaining = contextBudget,
       alloc_budget = contextBudget, alloc_estimatedTokens = ceilTokens contextBudget \<rparr>"

definition withSummary :: "ContextualResult \<Rightarrow> ContextualInstructions" where
  "withSummary result =
     ContextualResult.extend result
       (ContextualInstructions.fields
          \<lparr> filesLoaded = int (length (r_instructions result)),
            totalCharsUsed = totalChars result,
            totalTokensUsed = ceilTokens (totalChars result),
            remainingBudget = budgetRemaining result,
            remainingTokens = ceilTokens (budgetRemaining result) \<rparr>)"

definition select ::
  "directory \<Rightarrow> directory \<Rightarrow> string list \<Rightarrow> string \<Rightarrow> string \<Rightarrow> int
     \<Rightarrow> ContextualInstructions \<times> directory" where
  \<comment> \<open>\<open>getContextualInstructions\<close> from its loop on, for any list of relevant files\<close>
  "select dir cache relevantFiles task fileType contextBudget =
     (case instructionsLoop dir relevantFiles (initialResult task fileType contextBudget, cache)
      of (result, cache') \<Rightarrow> (withSummary result, cache'))"

definition getContextualInstructions ::
  "directory \<Rightarrow> directory \<Rightarrow> string \<Rightarrow> string \<Rightarrow> int \<Rightarrow> ContextualInstructions \<times> directory" where
  "getContextualInstructions dir cache task fileType contextBudget =
     select dir cache (determineRelevantInstructions task fileType) task fileType contextBudget"

definition tool_get_contextual_instructions ::
  "directory \<Rightarrow> directory \<Rightarrow> string \<Rightarrow> string \<Rightarrow> int option
     \<Rightarrow> ContextualInstructions \<times> directory" where
  \<comment> \<open>the request handler: \<open>args.contextBudget || MAX_CHARS\<close> replaces a missing or zero budget\<close>
  "tool_get_contextual_instructions dir cache task fileType contextBudget =
     getContextualInstructions dir cache task fileType
       (case contextBudget of None \<Rightarrow> MAX_CHARS
        | Some b \<Rightarrow> if b = 0 then MAX_CHARS else b)"

text \<open>
  For the properties of the loop: \<open>usable\<close> says that \<open>loadInstruction\<close> yields a
  content the loop keeps (neither \<open>null\<close> nor empty), and \<open>exampleDirectory\<close> holds
  three files of 100 characters each, under the names that
  \<open>determineRelevantInstructions\<close> gives for a security task on a Java file.
\<close>

definition usable :: "directory \<Rightarrow> directory \<Rightarrow> string \<Rightarrow> bool" where
  "usable dir cache filename =
     (case fst (loadInstruction dir cache filename) of
        None \<Rightarrow> False
      | Some text \<Rightarrow> text \<noteq> [])"

definition exampleDirectory :: directory where
  "exampleDirectory =
     [''code-review-generic.instructions.md'' \<mapsto> replicate 100 CHR ''a'',
      ''java.instructions.md'' \<mapsto> replicate 100 CHR ''b'',
      ''security-and-owasp.instructions.md'' \<mapsto> replicate 100 CHR ''c'']"




section \<open>The binary64 products\<close>

text \<open>
  The products of \<open>js_times\<close> at a few arguments, as binary64 arithmetic gives them:
  \<open>180 * 0.7 = 125.99999999999999\<close>, \<open>24 * 0.7 = 16.799999999999997\<close>,
  \<open>20 * 0.7 = 14\<close>, \<open>180 * 0.35 = 62.99999999999999\<close> and \<open>-7 * 0.15 = -1.05\<close>.
\<close>

lemma js_times_values:
  "js_times 180 c070 = 8866461766385663 / 2 ^ 46"
  "js_times 24 c070 = 1182194902184755 / 2 ^ 46"
  "js_times 20 c070 = 14"
  "js_times 180 c035 = 8866461766385663 / 2 ^ 47"
  "js_times (- 7) c015 = - (4728779608739021 / 2 ^ 52)"
  by code_simp+

section \<open>TokenEstimator: estimate and character limit\<close>

lemma estimateTokens_div: "estimateTokens s = (int (length s) + 3) div 4"
proof -
  have "\<lceil>(of_int (int (length s)) :: rat) / of_int 4\<rceil> = - ((- int (length s)) div 4)"
    by (simp only: ceiling_divide_eq_div)
  then show ?thesis
    unfolding estimateTokens_def CHARS_PER_TOKEN_def by simp
qed

text \<open>
  Claim C9. For every string, \<open>estimateTokens\<close> is the ceiling of a quarter of the
  length, so it never counts less than the text holds, and the character limit of the
  estimate is at least the length and less than four characters above it.
\<close>

theorem estimateTokens_roundtrip:
  "estimateTokens text = \<lceil>(of_nat (length text) :: rat) / 4\<rceil>
   \<and> (of_nat (length text) :: rat) / 4 \<le> of_int (estimateTokens text)
   \<and> int (length text) \<le> getCharLimit (estimateTokens text)
   \<and> getCharLimit (estimateTokens text) < int (length text) + 4"
proof -
  have a: "estimateTokens text = \<lceil>(of_nat (length text) :: rat) / 4\<rceil>"
    by (simp add: estimateTokens_def CHARS_PER_TOKEN_def)
  have b: "(of_nat (length text) :: rat) / 4 \<le> of_int (estimateTokens text)"
    unfolding a by (rule le_of_int_ceiling)
  have c: "int (length text) \<le> getCharLimit (estimateTokens text)"
    unfolding getCharLimit_def CHARS_PER_TOKEN_def estimateTokens_div by presburger
  have d: "getCharLimit (estimateTokens text) < int (length text) + 4"
    unfolding getCharLimit_def CHARS_PER_TOKEN_def estimateTokens_div by presburger
  from a b c d show ?thesis by blast
qed

section \<open>PriorityRanker: ranking and reallocation\<close>

text \<open>
  Every keyword rule writes all three priorities, so whatever rules match, the result
  is one of four orders.
\<close>

lemma suggestPriority_cases:
  "suggestPriority task =
     [\<lparr> ctype = Instructions, priority = 1 \<rparr>, \<lparr> ctype = Docs, priority = 2 \<rparr>,
      \<lparr> ctype = Agent, priority = 3 \<rparr>]
   \<or> suggestPriority task =
     [\<lparr> ctype = Agent, priority = 1 \<rparr>, \<lparr> ctype = Instructions, priority = 2 \<rparr>,
      \<lparr> ctype = Docs, priority = 3 \<rparr>]
   \<or> suggestPriority task =
     [\<lparr> ctype = Docs, priority = 1 \<rparr>, \<lparr> ctype = Instructions, priority = 2 \<rparr>,
      \<lparr> ctype = Agent, priority = 3 \<rparr>]
   \<or> suggestPriority task =
     [\<lparr> ctype = Agent, priority = 1 \<rparr>, \<lparr> ctype = Docs, priority = 2 \<rparr>,
      \<lparr> ctype = Instructions, priority = 3 \<rparr>]"
  unfolding suggestPriority_def Let_def
  by (simp split: if_splits)

text \<open>
  Claim C8. For every task description, \<open>suggestPriority\<close> returns three entries, one
  for each of the categories instructions, docs and agent, and their priorities are
  1, 2 and 3: every category has exactly one rank and no two share one.
\<close>

theorem suggestPriority_ranks:
  "length (suggestPriority task) = 3
   \<and> map priority (suggestPriority task) = [1, 2, 3]
   \<and> distinct (map ctype (suggestPriority task))
   \<and> set (map ctype (suggestPriority task)) = {Instructions, Docs, Agent}"
  using suggestPriority_cases [of task] by auto

lemma floor_times_1000:
  "\<lfloor>js_times 1000 c050\<rfloor> = 500"
  "\<lfloor>js_times 1000 c035\<rfloor> = 350"
  "\<lfloor>js_times 1000 c015\<rfloor> = 150"
  by code_simp+

lemma suggestPriority_security:
  "suggestPriority ''implement security authentication'' =
     [\<lparr> ctype = Instructions, priority = 1 \<rparr>, \<lparr> ctype = Docs, priority = 2 \<rparr>,
      \<lparr> ctype = Agent, priority = 3 \<rparr>]"
  by code_simp

lemma allocateByPriority_by_rank:
  "map (getBudgetFor (m \<lparr> allocation := allocateByPriority m task \<rparr>) \<circ> ctype)
       (suggestPriority task)
     = map (\<lambda>w. \<lfloor>js_times (total_alloc (allocation m) - reserved (allocation m)) w\<rfloor>) weights"
  using suggestPriority_cases [of task]
  by (auto simp: allocateByPriority_def Let_def weights_def setBudget_def getBudgetFor_def)

lemma allocateByPriority_keeps:
  "reserved (allocateByPriority m task) = reserved (allocation m)"
  "total_alloc (allocateByPriority m task) = total_alloc (allocation m)"
  using suggestPriority_cases [of task]
  by (auto simp: allocateByPriority_def Let_def weights_def setBudget_def)

text \<open>
  Claim C7. The task "implement security authentication" is ranked instructions, docs,
  agent. For a manager whose total less its reserved budget is 1000, the reallocation
  gives instructions 500, docs 350 and agent 150 and keeps reserved and total. For
  every task and manager, the category at rank 1, 2, 3 receives the floor of the
  non-reserved remainder times 0.5, 0.35, 0.15 (a binary64 product, as the code
  computes it), and reserved and total are unchanged.
\<close>

theorem security_task_reallocation:
  "suggestPriority ''implement security authentication'' =
       [\<lparr> ctype = Instructions, priority = 1 \<rparr>, \<lparr> ctype = Docs, priority = 2 \<rparr>,
        \<lparr> ctype = Agent, priority = 3 \<rparr>]
   \<and> allocateByPriority
         \<lparr> config = cfg,
           allocation = \<lparr> instructions = i, docs = d, agent = a, reserved = r,
                          total_alloc = r + 1000 \<rparr> \<rparr>
         ''implement security authentication''
       = \<lparr> instructions = 500, docs = 350, agent = 150, reserved = r, total_alloc = r + 1000 \<rparr>
   \<and> map (getBudgetFor (m \<lparr> allocation := allocateByPriority m task \<rparr>) \<circ> ctype)
         (suggestPriority task)
       = [\<lfloor>js_times (total_alloc (allocation m) - reserved (allocation m)) c050\<rfloor>,
          \<lfloor>js_times (total_alloc (allocation m) - reserved (allocation m)) c035\<rfloor>,
          \<lfloor>js_times (total_alloc (allocation m) - reserved (allocation m)) c015\<rfloor>]
   \<and> reserved (allocateByPriority m task) = reserved (allocation m)
   \<and> total_alloc (allocateByPriority m task) = total_alloc (allocation m)"
proof -
  have ex: "allocateByPriority
         \<lparr> config = cfg,
           allocation = \<lparr> instructions = i, docs = d, agent = a, reserved = r,
                          total_alloc = r + 1000 \<rparr> \<rparr>
         ''implement security authentication''
       = \<lparr> instructions = 500, docs = 350, agent = 150, reserved = r, total_alloc = r + 1000 \<rparr>"
    unfolding allocateByPriority_def Let_def suggestPriority_security weights_def
    by (simp add: setBudget_def floor_times_1000)
  show ?thesis
    using suggestPriority_security ex allocateByPriority_by_rank [of m task]
      allocateByPriority_keeps [of m task]
    by (simp add: weights_def)
qed

section \<open>Truncator: \<open>truncate\<close>\<close>

text \<open>\<open>lastIndexOf\<close> answers the last position of the character, or \<open>-1\<close>.\<close>

lemma lastIndexOf_bounds: "- 1 \<le> lastIndexOf s c \<and> lastIndexOf s c < int (length s)"
proof (cases "c \<in> set s")
  case True
  have "length (takeWhile (\<lambda>x. x \<noteq> c) (rev s)) \<le> length (rev s)"
    by (rule length_takeWhile_le)
  with True show ?thesis by (simp add: lastIndexOf_def)
next
  case False
  then show ?thesis by (simp add: lastIndexOf_def)
qed

lemma lastIndexOf_found:
  assumes "c \<in> set s"
  shows "0 \<le> lastIndexOf s c \<and> s ! nat (lastIndexOf s c) = c
         \<and> c \<notin> set (drop (Suc (nat (lastIndexOf s c))) s)"
proof -
  define t where "t = takeWhile (\<lambda>x. x \<noteq> c) (rev s)"
  define k where "k = length t"
  have t_take: "t = take k (rev s)"
    unfolding t_def k_def by (rule takeWhile_eq_take)
  have no_c: "c \<notin> set t"
    unfolding t_def by (auto dest: set_takeWhileD)
  have "k \<noteq> length (rev s)"
  proof
    assume "k = length (rev s)"
    with t_take have "t = rev s" by simp
    with no_c assms show False by simp
  qed
  moreover have "k \<le> length (rev s)"
    unfolding k_def t_def by (rule length_takeWhile_le)
  ultimately have lt: "k < length s" by simp
  have idx: "lastIndexOf s c = int (length s - Suc k)"
    using assms lt by (simp add: lastIndexOf_def k_def t_def)
  have "\<not> (rev s ! k \<noteq> c)"
    using lt nth_length_takeWhile [of "\<lambda>x. x \<noteq> c" "rev s"] by (simp add: k_def t_def)
  then have hit: "s ! (length s - Suc k) = c"
    using lt by (simp add: rev_nth)
  have "drop (Suc (length s - Suc k)) s = drop (length s - k) s"
    using lt by (simp add: Suc_diff_Suc)
  also have "\<dots> = rev (take k (rev s))"
    by (simp add: rev_take)
  finally have "set (drop (Suc (length s - Suc k)) s) = set t"
    using t_take by simp
  with no_c hit show ?thesis by (simp add: idx)
qed

lemma take_min_length: "take (min (length s) n) s = take n s"
  by (simp add: min_def)

lemma truncate_kept:
  assumes "0 \<le> budget"
  shows "truncated_length (truncate s budget) \<le> getCharLimit budget
     \<and> content (truncate s budget)
         = take (nat (truncated_length (truncate s budget))) s
           @ (if wasTruncated (truncate s budget) then truncation_marker else [])"
proof (cases "int (length s) \<le> getCharLimit budget")
  case True
  then show ?thesis by (simp add: truncate_def Let_def)
next
  case False
  define maxChars where "maxChars = getCharLimit budget"
  define cut where "cut = substring0 s maxChars"
  define lgp where "lgp = max (max (lastIndexOf cut CHR ''.'') (lastIndexOf cut CHR 0x0A))
                            (lastIndexOf cut CHR ''#'')"
  define kept where "kept = (if js_times maxChars c070 < of_int lgp
                       then substring0 s (lgp + 1) else cut)"
  have m0: "0 \<le> maxChars"
    using assms by (simp add: maxChars_def getCharLimit_def CHARS_PER_TOKEN_def)
  have cutlen: "int (length cut) = maxChars"
    using False m0 by (simp add: cut_def substring0_def maxChars_def)
  have lgp_b: "- 1 \<le> lgp \<and> lgp < int (length cut)"
    unfolding lgp_def using lastIndexOf_bounds [of cut] by (simp add: max_def)
  have keptlen: "int (length kept) \<le> maxChars"
    using lgp_b cutlen by (auto simp: kept_def substring0_def)
  have kept_take: "kept = take (length kept) s"
    by (simp add: kept_def cut_def substring0_def take_min_length)
  have r: "truncate s budget =
        \<lparr> content = kept @ truncation_marker,
          original_length = int (length s), original_tokens = estimateTokens s,
          truncated_length = int (length kept), truncated_tokens = estimateTokens kept,
          wasTruncated = True \<rparr>"
    using False
    by (simp add: truncate_def Let_def kept_def lgp_def cut_def maxChars_def)
  show ?thesis
    using keptlen kept_take by (simp add: r maxChars_def)
qed

text \<open>The spec's sentence example, at the budgets around the second sentence.\<close>

lemma truncate_sentences_6:
  "truncate ''Sentence one. Sentence two. Sentence three.'' 6 =
     \<lparr> content = ''Sentence one. Sentence t'' @ truncation_marker,
       original_length = 43, original_tokens = 11,
       truncated_length = 24, truncated_tokens = 6, wasTruncated = True \<rparr>"
  by code_simp

lemma truncate_sentences_7_8_9:
  "content (truncate ''Sentence one. Sentence two. Sentence three.'' 7)
     = ''Sentence one. Sentence two.'' @ truncation_marker"
  "content (truncate ''Sentence one. Sentence two. Sentence three.'' 8)
     = ''Sentence one. Sentence two.'' @ truncation_marker"
  "content (truncate ''Sentence one. Sentence two. Sentence three.'' 9)
     = ''Sentence one. Sentence two.'' @ truncation_marker"
  by code_simp+

text \<open>
  Claim C3, as the spec states it, fails. The budget 6 has the character limit 24,
  which lands after the "t" of "two"; the content \<open>truncate\<close> returns there does not
  begin with "Sentence one. Sentence two.".
\<close>

theorem truncate_boundary_counterexample:
  "getCharLimit 6 = 24
   \<and> substring0 ''Sentence one. Sentence two. Sentence three.'' 24 = ''Sentence one. Sentence t''
   \<and> \<not> startsWith (content (truncate ''Sentence one. Sentence two. Sentence three.'' 6))
          ''Sentence one. Sentence two.''"
  by code_simp

text \<open>
  Claim C3, amended. For the text "Sentence one. Sentence two. Sentence three." and the
  budget 6, whose limit 24 lands inside "two", the search goes backward from the limit:
  the rightmost boundary in the candidate is the period after "one", at index 12, which
  is not past 70% of 24, so the cut is the raw one and the content is
  "Sentence one. Sentence t" and the marker. The content ends exactly after
  "Sentence one. Sentence two." for the budgets 7, 8 and 9, whose limits 28, 32 and 36
  lie past the second period with that period beyond 70% of the limit.
\<close>

theorem truncate_boundary_example:
  "truncate ''Sentence one. Sentence two. Sentence three.'' 6 =
     \<lparr> content = ''Sentence one. Sentence t'' @ truncation_marker,
       original_length = 43, original_tokens = 11,
       truncated_length = 24, truncated_tokens = 6, wasTruncated = True \<rparr>
   \<and> lastIndexOf ''Sentence one. Sentence t'' CHR ''.'' = 12
   \<and> lastIndexOf ''Sentence one. Sentence t'' CHR 0x0A = - 1
   \<and> lastIndexOf ''Sentence one. Sentence t'' CHR ''#'' = - 1
   \<and> \<not> js_times 24 c070 < 12
   \<and> content (truncate ''Sentence one. Sentence two. Sentence three.'' 7)
       = ''Sentence one. Sentence two.'' @ truncation_marker
   \<and> content (truncate ''Sentence one. Sentence two. Sentence three.'' 8)
       = ''Sentence one. Sentence two.'' @ truncation_marker
   \<and> content (truncate ''Sentence one. Sentence two. Sentence three.'' 9)
       = ''Sentence one. Sentence two.'' @ truncation_marker"
proof -
  have "lastIndexOf ''Sentence one. Sentence t'' CHR ''.'' = 12"
    "lastIndexOf ''Sentence one. Sentence t'' CHR 0x0A = - 1"
    "lastIndexOf ''Sentence one. Sentence t'' CHR ''#'' = - 1"
    "\<not> js_times 24 c070 < 12"
    by code_simp+
  with truncate_sentences_6 truncate_sentences_7_8_9 show ?thesis by blast
qed

text \<open>
  Claim C6, as the spec states it, fails for a negative budget: the limit is negative,
  the candidate cut is empty, and the reported length 0 is above the limit.
\<close>

theorem truncate_limit_counterexample:
  "truncated_length (truncate ''abc'' (- 1)) = 0
   \<and> getCharLimit (- 1) = - 4
   \<and> \<not> truncated_length (truncate ''abc'' (- 1)) \<le> getCharLimit (- 1)"
  by code_simp

text \<open>
  Claim C6, amended. For every text and every budget that is not negative, the length
  \<open>truncate\<close> reports for the truncated text is at most the character limit of the
  budget, which is four times the budget; the content returned is that many leading
  characters of the text, followed by the marker when the text was cut.
\<close>

theorem truncate_within_limit:
  assumes "0 \<le> budget"
  shows "truncated_length (truncate s budget) \<le> getCharLimit budget
     \<and> getCharLimit budget = budget * 4
     \<and> content (truncate s budget)
         = take (nat (truncated_length (truncate s budget))) s
           @ (if wasTruncated (truncate s budget) then truncation_marker else [])"
  using truncate_kept [OF assms, of s] by (simp add: getCharLimit_def CHARS_PER_TOKEN_def)

theorem truncate_within_limit_witness:
  "(0::int) \<le> 6
   \<and> truncated_length (truncate ''Sentence one. Sentence two. Sentence three.'' 6)
       \<le> getCharLimit 6
   \<and> getCharLimit 6 = 6 * 4
   \<and> content (truncate ''Sentence one. Sentence two. Sentence three.'' 6)
       = take (nat (truncated_length
                (truncate ''Sentence one. Sentence two. Sentence three.'' 6)))
           ''Sentence one. Sentence two. Sentence three.''
         @ (if wasTruncated (truncate ''Sentence one. Sentence two. Sentence three.'' 6)
            then truncation_marker else [])"
proof -
  have h: "(0::int) \<le> 6" by simp
  show ?thesis
    using h truncate_within_limit [OF h, of "''Sentence one. Sentence two. Sentence three.''"]
    by blast
qed

section \<open>BudgetAllocator: the constructor\<close>












section \<open>ContentSelector: the loop of \<open>getContextualInstructions\<close>\<close>

text \<open>
  What \<open>loadInstruction\<close> answers for a file does not change while the loop runs: a
  miss fills the cache with the content the directory holds.
\<close>

lemma loadInstruction_stable:
  "fst (loadInstruction dir (snd (loadInstruction dir cache f)) g) = fst (loadInstruction dir cache g)"
  by (simp add: loadInstruction_def split: option.splits)

lemma processFile_snd: "snd (processFile dir f st) = snd (loadInstruction dir (snd st) f)"
  by (simp add: processFile_def split: prod.splits option.splits)

lemma processFile_fst:
  "fst (processFile dir f st) =
     (case fst (loadInstruction dir (snd st) f) of
        None \<Rightarrow> fst st
      | Some text \<Rightarrow> if text = [] then fst st else addInstruction f text (fst st))"
  by (simp add: processFile_def split: prod.splits option.splits)

lemma processFile_stable:
  "fst (loadInstruction dir (snd (processFile dir f st)) g) = fst (loadInstruction dir (snd st) g)"
  by (simp add: processFile_snd loadInstruction_stable)

lemma instructionsLoop_stable:
  "fst (loadInstruction dir (snd (instructionsLoop dir fs st)) g) = fst (loadInstruction dir (snd st) g)"
  by (induction fs arbitrary: st) (simp_all add: processFile_stable)

lemma instructionsLoop_stops:
  "budgetRemaining (fst st) \<le> 0 \<Longrightarrow> instructionsLoop dir fs st = st"
  by (cases fs) simp_all

lemma instructionsLoop_append:
  "instructionsLoop dir (xs @ ys) st = instructionsLoop dir ys (instructionsLoop dir xs st)"
  by (induction xs arbitrary: st) (simp_all add: instructionsLoop_stops)




lemma addInstruction_conserves:
  "totalChars (addInstruction f text r) + budgetRemaining (addInstruction f text r)
     = totalChars r + budgetRemaining r"
  by (simp add: addInstruction_def Let_def)

lemma addInstruction_nonneg:
  "0 \<le> budgetRemaining r \<Longrightarrow> 0 \<le> budgetRemaining (addInstruction f text r)"
  by (simp add: addInstruction_def Let_def)

lemma addInstruction_used:
  "sum_list (map usedLength (r_instructions (addInstruction f text r)))
     - totalChars (addInstruction f text r)
   = sum_list (map usedLength (r_instructions r)) - totalChars r"
  by (simp add: addInstruction_def Let_def)

lemma processFile_conserves:
  "totalChars (fst (processFile dir f st)) + budgetRemaining (fst (processFile dir f st))
     = totalChars (fst st) + budgetRemaining (fst st)"
  by (simp add: processFile_fst addInstruction_conserves split: option.splits)

lemma processFile_nonneg:
  "0 \<le> budgetRemaining (fst st) \<Longrightarrow> 0 \<le> budgetRemaining (fst (processFile dir f st))"
  by (simp add: processFile_fst addInstruction_nonneg split: option.splits)

lemma processFile_used:
  "sum_list (map usedLength (r_instructions (fst (processFile dir f st))))
     - totalChars (fst (processFile dir f st))
   = sum_list (map usedLength (r_instructions (fst st))) - totalChars (fst st)"
  by (simp add: processFile_fst addInstruction_used split: option.splits)

lemma instructionsLoop_conserves:
  "totalChars (fst (instructionsLoop dir fs st)) + budgetRemaining (fst (instructionsLoop dir fs st))
     = totalChars (fst st) + budgetRemaining (fst st)"
  by (induction fs arbitrary: st) (simp_all add: processFile_conserves)

lemma instructionsLoop_nonneg:
  "0 \<le> budgetRemaining (fst st) \<Longrightarrow> 0 \<le> budgetRemaining (fst (instructionsLoop dir fs st))"
  by (induction fs arbitrary: st) (simp_all add: processFile_nonneg)

lemma instructionsLoop_used:
  "sum_list (map usedLength (r_instructions (fst (instructionsLoop dir fs st))))
     - totalChars (fst (instructionsLoop dir fs st))
   = sum_list (map usedLength (r_instructions (fst st))) - totalChars (fst st)"
  by (induction fs arbitrary: st) (simp_all add: processFile_used)

lemma usable_stable:
  "usable dir (snd (processFile dir f st)) g = usable dir (snd st) g"
  by (simp add: usable_def processFile_stable)

lemma processFile_names:
  "map file_name (r_instructions (fst (processFile dir f st)))
     = map file_name (r_instructions (fst st)) @ (if usable dir (snd st) f then [f] else [])"
  by (simp add: processFile_fst usable_def addInstruction_def Let_def split: option.splits)

lemma instructionsLoop_names:
  "\<exists>n. map file_name (r_instructions (fst (instructionsLoop dir fs st)))
        = map file_name (r_instructions (fst st)) @ take n (filter (usable dir (snd st)) fs)"
proof (induction fs arbitrary: st)
  case Nil
  then show ?case by simp
next
  case (Cons f rest)
  show ?case
  proof (cases "budgetRemaining (fst st) \<le> 0")
    case True
    then have "map file_name (r_instructions (fst (instructionsLoop dir (f # rest) st)))
        = map file_name (r_instructions (fst st)) @ take 0 (filter (usable dir (snd st)) (f # rest))"
      by simp
    then show ?thesis by blast
  next
    case False
    obtain n where n: "map file_name (r_instructions (fst (instructionsLoop dir rest (processFile dir f st))))
        = map file_name (r_instructions (fst (processFile dir f st)))
          @ take n (filter (usable dir (snd (processFile dir f st))) rest)"
      using Cons.IH by blast
    have same: "filter (usable dir (snd (processFile dir f st))) rest = filter (usable dir (snd st)) rest"
      by (rule filter_cong) (simp_all add: usable_stable)
    show ?thesis
    proof (cases "usable dir (snd st) f")
      case True
      have "map file_name (r_instructions (fst (instructionsLoop dir (f # rest) st)))
        = map file_name (r_instructions (fst st)) @ take (Suc n) (filter (usable dir (snd st)) (f # rest))"
        using False True n by (simp add: processFile_names same)
      then show ?thesis by blast
    next
      case u: False
      have "map file_name (r_instructions (fst (instructionsLoop dir (f # rest) st)))
        = map file_name (r_instructions (fst st)) @ take n (filter (usable dir (snd st)) (f # rest))"
        using False u n by (simp add: processFile_names same)
      then show ?thesis by blast
    qed
  qed
qed

lemma select_fst:
  "fst (select dir cache files task ft b)
     = withSummary (fst (instructionsLoop dir files (initialResult task ft b, cache)))"
  by (simp add: select_def split: prod.splits)

lemma withSummary_fields:
  "r_instructions (withSummary r) = r_instructions r"
  "totalChars (withSummary r) = totalChars r"
  "budgetRemaining (withSummary r) = budgetRemaining r"
  "totalCharsUsed (summary (withSummary r)) = totalChars r"
  "remainingBudget (summary (withSummary r)) = budgetRemaining r"
  "filesLoaded (summary (withSummary r)) = int (length (r_instructions r))"
  by (simp_all add: withSummary_def ContextualResult.extend_def ContextualInstructions.fields_def
      ContextualResult.defs ContextualInstructions.defs)

lemma relevant_security_java:
  "determineRelevantInstructions ''security'' ''java'' =
     [''code-review-generic.instructions.md'', ''java.instructions.md'',
      ''security-and-owasp.instructions.md'']"
  by code_simp

lemma exampleDirectory_files:
  "exampleDirectory ''code-review-generic.instructions.md'' = Some (replicate 100 CHR ''a'')"
  "exampleDirectory ''java.instructions.md'' = Some (replicate 100 CHR ''b'')"
  "exampleDirectory ''security-and-owasp.instructions.md'' = Some (replicate 100 CHR ''c'')"
  by (simp_all add: exampleDirectory_def)

lemma three_items_150:
  assumes "length a = 100" "length b = 100" "length c = 100" "distinct [fa, fb, fc]"
    "dir fa = Some a" "dir fb = Some b" "dir fc = Some c"
  shows "r_instructions (fst (select dir Map.empty [fa, fb, fc] task ft 150)) =
           [\<lparr> file_name = fa, entry_content = a, truncated = False,
               originalLength = 100, usedLength = 100, estimatedTokens = 25 \<rparr>,
            \<lparr> file_name = fb, entry_content = take 50 b @ select_marker, truncated = True,
               originalLength = 100, usedLength = 50, estimatedTokens = 13 \<rparr>]
         \<and> totalCharsUsed (summary (fst (select dir Map.empty [fa, fb, fc] task ft 150))) = 150
         \<and> remainingBudget (summary (fst (select dir Map.empty [fa, fb, fc] task ft 150))) = 0"
proof -
  have ne: "a \<noteq> []" "b \<noteq> []" using assms by auto
  have c25: "ceilTokens 100 = 25" "ceilTokens 50 = 13" by code_simp+
  have s1: "processFile dir fa (initialResult task ft 150, Map.empty)
      = (addInstruction fa a (initialResult task ft 150), [fa \<mapsto> a])"
    using assms ne by (simp add: processFile_def loadInstruction_def)
  have s2: "processFile dir fb (addInstruction fa a (initialResult task ft 150), [fa \<mapsto> a])
      = (addInstruction fb b (addInstruction fa a (initialResult task ft 150)), [fa \<mapsto> a, fb \<mapsto> b])"
    using assms ne by (auto simp: processFile_def loadInstruction_def)
  have r0: "budgetRemaining (initialResult task ft 150) = 150"
    by (simp add: initialResult_def)
  have r1: "budgetRemaining (addInstruction fa a (initialResult task ft 150)) = 50"
    using assms by (simp add: addInstruction_def initialResult_def Let_def)
  have r2: "budgetRemaining (addInstruction fb b (addInstruction fa a (initialResult task ft 150))) = 0"
    using assms by (simp add: addInstruction_def initialResult_def Let_def)
  have loop: "instructionsLoop dir [fa, fb, fc] (initialResult task ft 150, Map.empty)
      = (addInstruction fb b (addInstruction fa a (initialResult task ft 150)), [fa \<mapsto> a, fb \<mapsto> b])"
    by (simp add: s1 s2 r0 r1 r2)
  have sel: "fst (select dir Map.empty [fa, fb, fc] task ft 150)
      = withSummary (addInstruction fb b (addInstruction fa a (initialResult task ft 150)))"
    by (simp only: select_fst loop fst_conv)
  show ?thesis
    unfolding sel using assms
    by (simp add: withSummary_fields addInstruction_def initialResult_def Let_def
        substring0_def c25)
qed

text \<open>
  Claim C2, as the spec states it, fails for a negative budget: the loop stops before
  the first file, nothing is selected, and the characters used, 0, are more than the
  budget.
\<close>

theorem select_negative_budget_counterexample:
  "r_instructions (fst (getContextualInstructions exampleDirectory Map.empty
      ''security'' ''java'' (- 5))) = []
   \<and> \<not> sum_list (map usedLength (r_instructions (fst (getContextualInstructions
          exampleDirectory Map.empty ''security'' ''java'' (- 5))))) \<le> - 5"
  by (simp add: getContextualInstructions_def relevant_security_java select_fst
      withSummary_fields initialResult_def)

text \<open>
  Claim C2, amended. For every list of files and every aggregate budget that is not
  negative: the entries returned are, in the order given, a leading part of the files
  that have content; the \<open>usedLength\<close> of the entries sum to at most the budget; and
  from a state whose remaining budget is 0 or less the loop returns that state
  unchanged, whatever files follow. For three files of 100 characters each and the
  budget 150, the first is returned whole (100 used), the second cut to 50 characters,
  the third is left out, and 150 characters are used.
\<close>

theorem select_within_budget:
  assumes "0 \<le> contextBudget"
  shows "map file_name (r_instructions (fst (select dir cache files task ft contextBudget)))
           = take (length (r_instructions (fst (select dir cache files task ft contextBudget))))
               (filter (usable dir cache) files)
     \<and> sum_list (map usedLength (r_instructions (fst (select dir cache files task ft contextBudget))))
           \<le> contextBudget
     \<and> (budgetRemaining r \<le> 0 \<longrightarrow> instructionsLoop dir files (r, cache) = (r, cache))
     \<and> (length a = 100 \<and> length b = 100 \<and> length c = 100 \<and> distinct [fa, fb, fc]
          \<and> dir fa = Some a \<and> dir fb = Some b \<and> dir fc = Some c \<longrightarrow>
         r_instructions (fst (select dir Map.empty [fa, fb, fc] task ft 150)) =
           [\<lparr> file_name = fa, entry_content = a, truncated = False,
               originalLength = 100, usedLength = 100, estimatedTokens = 25 \<rparr>,
            \<lparr> file_name = fb, entry_content = take 50 b @ select_marker, truncated = True,
               originalLength = 100, usedLength = 50, estimatedTokens = 13 \<rparr>]
         \<and> totalCharsUsed (summary (fst (select dir Map.empty [fa, fb, fc] task ft 150))) = 150
         \<and> remainingBudget (summary (fst (select dir Map.empty [fa, fb, fc] task ft 150))) = 0)"
proof -
  define st0 where "st0 = (initialResult task ft contextBudget, cache)"
  define R where "R = fst (instructionsLoop dir files st0)"
  obtain n where n: "map file_name (r_instructions R) = take n (filter (usable dir cache) files)"
    using instructionsLoop_names [of dir files st0] by (auto simp: R_def st0_def initialResult_def)
  have "length (r_instructions R) = min (length (filter (usable dir cache) files)) n"
    using arg_cong [OF n, of length] by simp
  then have names: "map file_name (r_instructions R)
      = take (length (r_instructions R)) (filter (usable dir cache) files)"
    using n by (simp add: take_min_length)
  have "sum_list (map usedLength (r_instructions R)) = totalChars R"
    using instructionsLoop_used [of dir files st0] by (simp add: R_def st0_def initialResult_def)
  moreover have "totalChars R + budgetRemaining R = contextBudget" "0 \<le> budgetRemaining R"
    using assms instructionsLoop_conserves [of dir files st0] instructionsLoop_nonneg [of st0 dir files]
    by (simp_all add: R_def st0_def initialResult_def)
  ultimately have total: "sum_list (map usedLength (r_instructions R)) \<le> contextBudget"
    by simp
  have stop: "budgetRemaining r \<le> 0 \<longrightarrow> instructionsLoop dir files (r, cache) = (r, cache)"
    by (simp add: instructionsLoop_stops)
  have sel: "r_instructions (fst (select dir cache files task ft contextBudget)) = r_instructions R"
    by (simp add: select_fst withSummary_fields R_def st0_def)
  show ?thesis
    unfolding sel using names total stop three_items_150 [of a b c fa fb fc dir task ft]
    by blast
qed

theorem select_within_budget_witness:
  "(0::int) \<le> 150
   \<and> r_instructions (fst (getContextualInstructions exampleDirectory Map.empty
         ''security'' ''java'' 150)) =
       [\<lparr> file_name = ''code-review-generic.instructions.md'',
           entry_content = replicate 100 CHR ''a'', truncated = False,
           originalLength = 100, usedLength = 100, estimatedTokens = 25 \<rparr>,
        \<lparr> file_name = ''java.instructions.md'',
           entry_content = replicate 50 CHR ''b'' @ select_marker, truncated = True,
           originalLength = 100, usedLength = 50, estimatedTokens = 13 \<rparr>]
   \<and> totalCharsUsed (summary (fst (getContextualInstructions exampleDirectory Map.empty
         ''security'' ''java'' 150))) = 150
   \<and> sum_list (map usedLength (r_instructions (fst (getContextualInstructions
         exampleDirectory Map.empty ''security'' ''java'' 150)))) \<le> 150
   \<and> instructionsLoop exampleDirectory (determineRelevantInstructions ''security'' ''java'')
         (initialResult ''security'' ''java'' 0, Map.empty)
       = (initialResult ''security'' ''java'' 0, Map.empty)"
proof -
  have h: "(0::int) \<le> 150" by simp
  have z: "budgetRemaining (initialResult ''security'' ''java'' 0) \<le> 0"
    by (simp add: initialResult_def)
  note t = select_within_budget [OF h, where dir = exampleDirectory and cache = Map.empty
      and files = "determineRelevantInstructions ''security'' ''java''"
      and task = "''security''" and ft = "''java''"
      and r = "initialResult ''security'' ''java'' 0"
      and a = "replicate 100 CHR ''a''" and b = "replicate 100 CHR ''b''"
      and c = "replicate 100 CHR ''c''"
      and fa = "''code-review-generic.instructions.md''" and fb = "''java.instructions.md''"
      and fc = "''security-and-owasp.instructions.md''"]
  from t have total: "sum_list (map usedLength (r_instructions (fst (select exampleDirectory
      Map.empty (determineRelevantInstructions ''security'' ''java'') ''security'' ''java'' 150))))
      \<le> 150"
    by blast
  from t z have stop: "instructionsLoop exampleDirectory
      (determineRelevantInstructions ''security'' ''java'')
      (initialResult ''security'' ''java'' 0, Map.empty)
       = (initialResult ''security'' ''java'' 0, Map.empty)"
    by blast
  from t have ex: "r_instructions (fst (select exampleDirectory Map.empty
         [''code-review-generic.instructions.md'', ''java.instructions.md'',
          ''security-and-owasp.instructions.md''] ''security'' ''java'' 150)) =
       [\<lparr> file_name = ''code-review-generic.instructions.md'',
           entry_content = replicate 100 CHR ''a'', truncated = False,
           originalLength = 100, usedLength = 100, estimatedTokens = 25 \<rparr>,
        \<lparr> file_name = ''java.instructions.md'',
           entry_content = take 50 (replicate 100 CHR ''b'') @ select_marker, truncated = True,
           originalLength = 100, usedLength = 50, estimatedTokens = 13 \<rparr>]
     \<and> totalCharsUsed (summary (fst (select exampleDirectory Map.empty
         [''code-review-generic.instructions.md'', ''java.instructions.md'',
          ''security-and-owasp.instructions.md''] ''security'' ''java'' 150))) = 150"
    by (simp add: exampleDirectory_files)
  show ?thesis
    using h total stop ex
    by (simp add: getContextualInstructions_def relevant_security_java)
qed






text \<open>
  Claim C10. For every list of files and every budget that is not negative: after any
  number \<open>n\<close> of the files, the characters used and the budget remaining sum to the
  budget passed in and the remaining budget is not negative, and the loop over all
  files continues from that state; the summary of \<open>getContextualInstructions\<close>
  reports characters used and a remaining budget that sum to the budget passed in.
\<close>

theorem budget_conservation:
  assumes "0 \<le> contextBudget"
  shows "(let st = instructionsLoop dir (take n files) (initialResult task ft contextBudget, cache)
          in totalChars (fst st) + budgetRemaining (fst st) = contextBudget
             \<and> 0 \<le> budgetRemaining (fst st)
             \<and> instructionsLoop dir files (initialResult task ft contextBudget, cache)
                 = instructionsLoop dir (drop n files) st)
     \<and> (let s = summary (fst (getContextualInstructions dir cache task ft contextBudget))
        in totalCharsUsed s + remainingBudget s = contextBudget \<and> 0 \<le> remainingBudget s)"
proof -
  define st0 where "st0 = (initialResult task ft contextBudget, cache)"
  have init: "totalChars (fst st0) + budgetRemaining (fst st0) = contextBudget"
    "0 \<le> budgetRemaining (fst st0)"
    using assms by (simp_all add: st0_def initialResult_def)
  have inv: "totalChars (fst (instructionsLoop dir fs st0))
              + budgetRemaining (fst (instructionsLoop dir fs st0)) = contextBudget
           \<and> 0 \<le> budgetRemaining (fst (instructionsLoop dir fs st0))" for fs
    using init instructionsLoop_conserves [of dir fs st0] instructionsLoop_nonneg [of st0 dir fs]
    by simp
  have split: "instructionsLoop dir files st0
                 = instructionsLoop dir (drop n files) (instructionsLoop dir (take n files) st0)"
    using instructionsLoop_append [of dir "take n files" "drop n files" st0] by simp
  show ?thesis
    using inv [of "take n files"] inv [of "determineRelevantInstructions task ft"] split
    by (simp add: Let_def st0_def getContextualInstructions_def select_fst withSummary_fields)
qed

theorem budget_conservation_witness:
  "(0::int) \<le> 150
   \<and> (let st = instructionsLoop exampleDirectory
                 (take 1 (determineRelevantInstructions ''security'' ''java''))
                 (initialResult ''security'' ''java'' 150, Map.empty)
      in totalChars (fst st) + budgetRemaining (fst st) = 150
         \<and> 0 \<le> budgetRemaining (fst st)
         \<and> instructionsLoop exampleDirectory (determineRelevantInstructions ''security'' ''java'')
               (initialResult ''security'' ''java'' 150, Map.empty)
             = instructionsLoop exampleDirectory
                 (drop 1 (determineRelevantInstructions ''security'' ''java'')) st)
   \<and> (let s = summary (fst (getContextualInstructions exampleDirectory Map.empty
                 ''security'' ''java'' 150))
      in totalCharsUsed s + remainingBudget s = 150 \<and> 0 \<le> remainingBudget s)"
proof -
  have h: "(0::int) \<le> 150" by simp
  show ?thesis
    using h budget_conservation [OF h, of exampleDirectory 1
        "determineRelevantInstructions ''security'' ''java''" "''security''" "''java''" Map.empty]
    by blast
qed

end
